theory Spec2Isabelle
  imports Complex_Main
begin

section \<open>Attribution simulator: the numeric core of \<open>src/pages/Index.tsx\<close>\<close>

text \<open>
  The page computes everything with JavaScript numbers. They are embedded as exact
  reals, and the seed of the generator, which stays integral, as an integer. The doubles
  of the source agree with this arithmetic up to their rounding; where a rounding can
  change a result that is read off (a floor, a \<open>toFixed\<close>, an integer beyond \<open>2^53\<close>) the
  theorems carry bounds that keep the input away from that case, and otherwise they are
  about the formulas of the source in exact arithmetic, without \<open>NaN\<close> and infinities.
  Mutable locals (\<open>pool\<close>, \<open>seed\<close>, \<open>prev\<close>, the row being filled) are threaded explicitly
  through the loops that update them.
\<close>

subsection \<open>Data model\<close>

datatype Channel = Meta | GoogleSearch | LinkedIn

definition CHANNELS :: "Channel list" where
  "CHANNELS = [Meta, GoogleSearch, LinkedIn]"

datatype AttributionModel = last_click | position_based | time_decay | bayesian_mmm

text \<open>\<open>SaturationLevel\<close> and \<open>NoiseLevel\<close> are the same union of three string literals.\<close>

datatype Level = low | medium | high

type_synonym SaturationLevel = Level
type_synonym NoiseLevel = Level

datatype ConversionWindow = W7 | W14 | W30


datatype Certainty = Low | Medium | High

record SimulationInput =
  spend :: "Channel \<Rightarrow> real"
  model :: AttributionModel
  window :: ConversionWindow
  saturation :: SaturationLevel
  noise :: NoiseLevel

record ChannelOutput =
  channel :: Channel
  roas :: real
  cac :: real
  attributedConversions :: real
  incrementalConversions :: real
  certainty :: Certainty

record BudgetPlanRow =
  row_channel :: Channel
  before :: real
  after :: real

subsection \<open>JavaScript helpers\<close>

text \<open>\<open>x || d\<close> on numbers: \<open>d\<close> when \<open>x\<close> is zero (or \<open>NaN\<close>, which the reals do not have).\<close>

definition or_else :: "real \<Rightarrow> real \<Rightarrow> real" where
  "or_else x d = (if x = 0 then d else x)"

text \<open>
  \<open>Number(x.toFixed(f))\<close>: the multiple of \<open>10^-f\<close> nearest to \<open>x\<close>, the larger one in
  magnitude on a tie; \<open>toFixed\<close> treats the sign apart. The source applies it to a double,
  which can lie on the other side of a tie than the exact value of the same expression.
\<close>

definition toFixed :: "nat \<Rightarrow> real \<Rightarrow> real" where
  "toFixed f x =
     (if x < 0 then - (of_int \<lfloor>(- x) * 10 ^ f + 1 / 2\<rfloor> / 10 ^ f)
      else of_int \<lfloor>x * 10 ^ f + 1 / 2\<rfloor> / 10 ^ f)"

text \<open>\<open>CHANNELS.reduce((sum, ch) => sum + f[ch], 0)\<close>.\<close>

definition sumChannels :: "(Channel \<Rightarrow> real) \<Rightarrow> real" where
  "sumChannels f = foldl (\<lambda>sum ch. sum + f ch) 0 CHANNELS"

subsection \<open>\<open>simulateAttribution\<close>\<close>

fun baseEfficiency :: "Channel \<Rightarrow> real" where
  "baseEfficiency Meta = 3.2"
| "baseEfficiency GoogleSearch = 4.0"
| "baseEfficiency LinkedIn = 2.4"

fun prospectingWeight :: "Channel \<Rightarrow> real" where
  "prospectingWeight Meta = 0.45"
| "prospectingWeight GoogleSearch = 0.2"
| "prospectingWeight LinkedIn = 0.7"

fun retargetingBias :: "Channel \<Rightarrow> real" where
  "retargetingBias Meta = 0.2"
| "retargetingBias GoogleSearch = 0.35"
| "retargetingBias LinkedIn = 0.1"

fun windowMultiplier :: "ConversionWindow \<Rightarrow> real" where
  "windowMultiplier W7 = 0.8"
| "windowMultiplier W14 = 0.95"
| "windowMultiplier W30 = 1.1"

definition saturationPenalty :: "SaturationLevel \<Rightarrow> real \<Rightarrow> real" where
  "saturationPenalty level sp =
     (let normalizedSpend = sp / 100000;
          base = (if level = low then 0.1 else if level = medium then 0.25 else 0.45)
      in 1 - min (base * normalizedSpend) (base + 0.15))"

definition noiseFactor :: "NoiseLevel \<Rightarrow> real" where
  "noiseFactor level = (if level = low then 0.05 else if level = medium then 0.12 else 0.22)"

fun modelWeights :: "AttributionModel \<Rightarrow> Channel \<Rightarrow> real" where
  "modelWeights last_click Meta = 0.3"
| "modelWeights last_click GoogleSearch = 0.55"
| "modelWeights last_click LinkedIn = 0.15"
| "modelWeights position_based Meta = 0.4"
| "modelWeights position_based GoogleSearch = 0.4"
| "modelWeights position_based LinkedIn = 0.2"
| "modelWeights time_decay Meta = 0.35"
| "modelWeights time_decay GoogleSearch = 0.45"
| "modelWeights time_decay LinkedIn = 0.2"
| "modelWeights bayesian_mmm Meta = 0.38"
| "modelWeights bayesian_mmm GoogleSearch = 0.32"
| "modelWeights bayesian_mmm LinkedIn = 0.3"

text \<open>The body of the \<open>CHANNELS.map\<close> callback: the output of one channel.\<close>

definition channelOutput :: "SimulationInput \<Rightarrow> Channel \<Rightarrow> ChannelOutput" where
  "channelOutput inp ch =
     (let weights = modelWeights (model inp);
          nz = noiseFactor (noise inp);
          sp = spend inp ch;
          effectiveROAS =
            baseEfficiency ch * windowMultiplier (window inp) *
            saturationPenalty (saturation inp) sp *
            (1 + (prospectingWeight ch - retargetingBias ch) * 0.2);
          attributedShare = weights ch;
          noisyShare =
            attributedShare +
            (retargetingBias ch - prospectingWeight ch) * nz *
              (if model inp = last_click then 1.2 else 0.8);
          boundedShare = max 0.05 (min 0.7 noisyShare);
          modeledRevenue = sp * effectiveROAS;
          blendedROAS = modeledRevenue / max sp 1;
          conversions = modeledRevenue / 500;
          incrementalShare =
            prospectingWeight ch * 0.6 + (1 - retargetingBias ch) * 0.2 +
            (if model inp = bayesian_mmm then 0.2 else 0.1);
          incrementalRevenue = modeledRevenue * incrementalShare * (1 - nz * 0.4);
          incrConversions = incrementalRevenue / 500;
          cacv = sp / max conversions 1;
          certainty0 = Medium;
          certainty1 =
            (if model inp = bayesian_mmm \<and> window inp = W30 \<and> noise inp = low then High
             else if noise inp = high \<or> window inp = W7 then Low
             else certainty0)
      in \<lparr> channel = ch,
           roas = blendedROAS * boundedShare,
           cac = cacv,
           attributedConversions = conversions * boundedShare,
           incrementalConversions = incrConversions,
           certainty = certainty1 \<rparr>)"

text \<open>
  The source also computes \<open>totalSpend\<close> (the sum of the spends, or 1) before the map and
  never reads it; it is left out.
\<close>

definition simulateAttribution :: "SimulationInput \<Rightarrow> ChannelOutput list" where
  "simulateAttribution inp = map (channelOutput inp) CHANNELS"

text \<open>The input of the page's initial state.\<close>

definition defaultSpend :: "Channel \<Rightarrow> real" where
  "defaultSpend ch = (case ch of Meta \<Rightarrow> 120000 | GoogleSearch \<Rightarrow> 90000 | LinkedIn \<Rightarrow> 60000)"

definition defaultInput :: SimulationInput where
  "defaultInput =
     \<lparr> spend = defaultSpend, model = bayesian_mmm, window = W30,
       saturation = medium, noise = medium \<rparr>"

subsection \<open>\<open>deriveBudgetPlan\<close>\<close>

definition budgetTotal :: "(Channel \<Rightarrow> real) \<Rightarrow> real" where
  "budgetTotal sp = or_else (sumChannels sp) 1"

fun overCreditedBase :: "AttributionModel \<Rightarrow> Channel \<Rightarrow> real" where
  "overCreditedBase m Meta = (if m = last_click then 0.4 else 0.3)"
| "overCreditedBase m GoogleSearch = (if m = last_click then 0.55 else 0.45)"
| "overCreditedBase m LinkedIn = 0.15"

fun underCreditedBase :: "Channel \<Rightarrow> real" where
  "underCreditedBase Meta = 0.35"
| "underCreditedBase GoogleSearch = 0.2"
| "underCreditedBase LinkedIn = 0.45"

definition reallocationIntensity :: "AttributionModel \<Rightarrow> real" where
  "reallocationIntensity m = (if m = bayesian_mmm then 0.35 else 0.28)"

definition beforeShares :: "(Channel \<Rightarrow> real) \<Rightarrow> Channel \<Rightarrow> real" where
  "beforeShares sp ch = sp ch / budgetTotal sp"

text \<open>
  The first \<open>forEach\<close>: one step takes the pair of \<open>afterShares\<close> and \<open>pool\<close> and returns
  it updated for one channel.
\<close>

definition giveBackStep ::
  "(Channel \<Rightarrow> real) \<Rightarrow> AttributionModel \<Rightarrow> (Channel \<Rightarrow> real) \<times> real \<Rightarrow> Channel
     \<Rightarrow> (Channel \<Rightarrow> real) \<times> real" where
  "giveBackStep sp m st ch =
     (let over = overCreditedBase m ch;
          giveBack = max 0 (beforeShares sp ch - over) * reallocationIntensity m
      in ((fst st)(ch := max 0.08 (beforeShares sp ch - giveBack)), snd st + giveBack))"

definition flooredShares ::
  "(Channel \<Rightarrow> real) \<Rightarrow> AttributionModel \<Rightarrow> (Channel \<Rightarrow> real) \<times> real" where
  "flooredShares sp m = foldl (giveBackStep sp m) (beforeShares sp, 0) CHANNELS"

definition totalUnderWeight :: real where
  "totalUnderWeight = sumChannels underCreditedBase"

text \<open>The second \<open>forEach\<close>: every channel receives its part of the pool.\<close>

definition allocateStep :: "real \<Rightarrow> (Channel \<Rightarrow> real) \<Rightarrow> Channel \<Rightarrow> (Channel \<Rightarrow> real)" where
  "allocateStep pool afterSh ch =
     (let allocation = (underCreditedBase ch / totalUnderWeight) * pool
      in afterSh(ch := afterSh ch + allocation))"

definition afterShares :: "(Channel \<Rightarrow> real) \<Rightarrow> AttributionModel \<Rightarrow> Channel \<Rightarrow> real" where
  "afterShares sp m =
     (let st = flooredShares sp m in foldl (allocateStep (snd st)) (fst st) CHANNELS)"

definition normalizeSum :: "(Channel \<Rightarrow> real) \<Rightarrow> AttributionModel \<Rightarrow> real" where
  "normalizeSum sp m = or_else (sumChannels (afterShares sp m)) 1"

definition deriveBudgetPlan :: "(Channel \<Rightarrow> real) \<Rightarrow> AttributionModel \<Rightarrow> BudgetPlanRow list" where
  "deriveBudgetPlan sp m =
     map (\<lambda>ch. \<lparr> row_channel = ch,
                before = (beforeShares sp ch / normalizeSum sp m) * budgetTotal sp,
                after = (afterShares sp m ch / normalizeSum sp m) * budgetTotal sp \<rparr>) CHANNELS"

text \<open>Every denominator \<open>deriveBudgetPlan\<close> divides by, in the order of the source.\<close>

definition budgetDenominators :: "(Channel \<Rightarrow> real) \<Rightarrow> AttributionModel \<Rightarrow> real list" where
  "budgetDenominators sp m = [budgetTotal sp, totalUnderWeight, normalizeSum sp m]"

text \<open>Sums over the returned rows, and the comparison "equal within 1e-6 relative".\<close>

definition sumBefore :: "BudgetPlanRow list \<Rightarrow> real" where
  "sumBefore rows = sum_list (map before rows)"

definition sumAfter :: "BudgetPlanRow list \<Rightarrow> real" where
  "sumAfter rows = sum_list (map after rows)"

definition approxEq :: "real \<Rightarrow> real \<Rightarrow> bool" where
  "approxEq a b \<longleftrightarrow> \<bar>a - b\<bar> \<le> 1 / 10 ^ 6 * max \<bar>a\<bar> \<bar>b\<bar>"

definition zeroSpend :: "Channel \<Rightarrow> real" where
  "zeroSpend ch = 0"


subsection \<open>The weekly series generator\<close>

record WeeklyPoint =
  week :: string
  ROAS :: real
  CAC :: real

text \<open>Decimal rendering of an index inside a template literal.\<close>

function showNat :: "nat \<Rightarrow> string" where
  "showNat n =
     (if n < 10 then [char_of (48 + n)] else showNat (n div 10) @ [char_of (48 + n mod 10)])"
  by pat_completeness auto
termination
  by (relation "measure id") auto

declare showNat.simps [simp del]
















subsection \<open>The per-channel series projector\<close>

record ChannelWeekRow =
  cw_week :: string
  cw_roas :: "Channel \<Rightarrow> real"

definition baseRoasByChannel :: "ChannelOutput list \<Rightarrow> Channel \<Rightarrow> real" where
  "baseRoasByChannel outputs ch =
     (case find (\<lambda>out. channel out = ch) outputs of
        Some found \<Rightarrow> or_else (roas found) 1
      | None \<Rightarrow> 1)"

text \<open>The inner \<open>CHANNELS.forEach((ch, channelIdx) => ...)\<close>, one step on the row.\<close>

definition fillChannel ::
  "ChannelOutput list \<Rightarrow> real \<Rightarrow> ChannelWeekRow \<Rightarrow> nat \<times> Channel \<Rightarrow> ChannelWeekRow" where
  "fillChannel outputs variance row ic =
     (let channelIdx = fst ic; ch = snd ic;
          channelDrift = 1 + (real channelIdx - 1) * 0.03;
          roasv = baseRoasByChannel outputs ch * variance * channelDrift
      in row\<lparr> cw_roas := (cw_roas row)(ch := toFixed 2 roasv) \<rparr>)"

definition channelWeekRow :: "ChannelOutput list \<Rightarrow> nat \<Rightarrow> nat \<Rightarrow> ChannelWeekRow" where
  "channelWeekRow outputs weeks idx =
     (let weekIndex = idx + 1;
          variance = 1 + (real idx - real weeks / 2) * 0.01;
          row = \<lparr> cw_week = ''W'' @ showNat weekIndex, cw_roas = (\<lambda>ch. 0) \<rparr>
      in foldl (fillChannel outputs variance) row (enumerate 0 CHANNELS))"

definition perChannelWeeklySeries ::
  "WeeklyPoint list \<Rightarrow> ChannelOutput list \<Rightarrow> ChannelWeekRow list" where
  "perChannelWeeklySeries ws outputs =
     (let weeks = length ws
      in if weeks = 0 then [] else map (channelWeekRow outputs weeks) [0..<weeks])"



subsection \<open>The cohort table\<close>

record CohortRow =
  bucket :: string
  cumulative :: real
  incremental :: real
  row_note :: string

definition baseCurve :: "ConversionWindow \<Rightarrow> real list" where
  "baseCurve w =
     (if w = W7 then [0.55, 0.8, 0.95, 1]
      else if w = W14 then [0.35, 0.6, 0.8, 0.92, 0.98, 1]
      else [0.18, 0.35, 0.55, 0.72, 0.85, 0.93, 0.97, 1])"

definition noiseAdjust :: "NoiseLevel \<Rightarrow> real" where
  "noiseAdjust nl = (if nl = low then 0.01 else if nl = medium then 0.03 else 0.06)"

text \<open>The en dash of the bucket labels, as its three UTF-8 bytes.\<close>

definition enDash :: string where
  "enDash = [CHR 0xE2, CHR 0x80, CHR 0x93]"

text \<open>
  One step of \<open>baseCurve.forEach((cum, idx) => ...)\<close> on the pair of \<open>rows\<close> and \<open>prev\<close>.
\<close>

definition cohortStep ::
  "nat \<Rightarrow> real \<Rightarrow> CohortRow list \<times> real \<Rightarrow> nat \<times> real \<Rightarrow> CohortRow list \<times> real" where
  "cohortStep len nadj st ic =
     (let idx = fst ic; cum = snd ic; prev = snd st;
          adjustedCum = max 0 (min 1 (cum + (real idx - real len / 2) * nadj * 0.1));
          incr = max 0 (adjustedCum - prev)
      in (fst st @
            [\<lparr> bucket = (if idx = 0 then ''Week 0'' @ enDash @ ''1''
                         else ''Week '' @ showNat idx @ enDash @ showNat (idx + 1)),
               cumulative = adjustedCum,
               incremental = incr,
               row_note = (if idx = 0 then ''Short-lag, lower-funnel dominated conversions.''
                       else if idx < 3
                         then ''Mix of retargeting and some prospecting-driven conversions.''
                       else ''Longer-lag, prospecting-heavy cohorts with higher modeled incremental lift.'') \<rparr>],
          adjustedCum))"

definition cohortTable :: "ConversionWindow \<Rightarrow> NoiseLevel \<Rightarrow> CohortRow list" where
  "cohortTable w nl =
     (let curve = baseCurve w
      in fst (foldl (cohortStep (length curve) (noiseAdjust nl)) ([], 0) (enumerate 0 curve)))"

subsection \<open>Auxiliary definitions\<close>

text \<open>The local \<open>effectiveROAS\<close> of \<open>simulateAttribution\<close> as a function of the channel.\<close>

definition effectiveROAS :: "SimulationInput \<Rightarrow> Channel \<Rightarrow> real" where
  "effectiveROAS inp ch =
     baseEfficiency ch * windowMultiplier (window inp) *
     saturationPenalty (saturation inp) (spend inp ch) *
     (1 + (prospectingWeight ch - retargetingBias ch) * 0.2)"

text \<open>A second input with the model, window and noise of the initial state.\<close>

definition otherInput :: SimulationInput where
  "otherInput =
     \<lparr> spend = zeroSpend, model = bayesian_mmm, window = W30,
       saturation = high, noise = medium \<rparr>"

text \<open>
  The locals of \<open>deriveBudgetPlan\<close> as functions of the channel: what a channel gives back,
  its share after the floor, and the pool the first loop collects.
\<close>

definition giveBack :: "(Channel \<Rightarrow> real) \<Rightarrow> AttributionModel \<Rightarrow> Channel \<Rightarrow> real" where
  "giveBack sp m ch = max 0 (beforeShares sp ch - overCreditedBase m ch) * reallocationIntensity m"

definition floored :: "(Channel \<Rightarrow> real) \<Rightarrow> AttributionModel \<Rightarrow> Channel \<Rightarrow> real" where
  "floored sp m ch = max 0.08 (beforeShares sp ch - giveBack sp m ch)"

definition poolOf :: "(Channel \<Rightarrow> real) \<Rightarrow> AttributionModel \<Rightarrow> real" where
  "poolOf sp m = giveBack sp m Meta + giveBack sp m GoogleSearch + giveBack sp m LinkedIn"

text \<open>
  Two spend mappings: everything on Meta; and a state the sliders of the page reach (Meta
  105000, Google Search 140000, LinkedIn at its minimum 15000).
\<close>

definition metaOnlySpend :: "Channel \<Rightarrow> real" where
  "metaOnlySpend ch = (case ch of Meta \<Rightarrow> 100 | GoogleSearch \<Rightarrow> 0 | LinkedIn \<Rightarrow> 0)"

definition sliderSpend :: "Channel \<Rightarrow> real" where
  "sliderSpend ch = (case ch of Meta \<Rightarrow> 105000 | GoogleSearch \<Rightarrow> 140000 | LinkedIn \<Rightarrow> 15000)"


text \<open>The local \<open>adjustedCum\<close> of the cohort loop as a function of the index and the base value.\<close>

definition adjustedCum :: "nat \<Rightarrow> real \<Rightarrow> nat \<times> real \<Rightarrow> real" where
  "adjustedCum len nadj ic = max 0 (min 1 (snd ic + (real (fst ic) - real len / 2) * nadj * 0.1))"


section \<open>Properties\<close>

subsection \<open>\<open>simulateAttribution\<close>\<close>

lemma certainty_channelOutput:
  "certainty (channelOutput inp ch) =
     (if model inp = bayesian_mmm \<and> window inp = W30 \<and> noise inp = low then High
      else if noise inp = high \<or> window inp = W7 then Low else Medium)"
  by (simp add: channelOutput_def Let_def)

lemma channel_channelOutput: "channel (channelOutput inp ch) = ch"
  by (simp add: channelOutput_def Let_def)

lemma simulateAttribution_nonempty: "simulateAttribution inp \<noteq> []"
  by (simp add: simulateAttribution_def CHANNELS_def)

lemma saturationPenalty_pos: "0 < saturationPenalty level sp"
  by (cases level) (simp_all add: saturationPenalty_def Let_def min_def)

lemma baseEfficiency_pos: "0 < baseEfficiency ch"
  by (cases ch) simp_all

lemma windowMultiplier_pos: "0 < windowMultiplier w"
  by (cases w) simp_all

lemma funnelFactor_pos: "0 < 1 + (prospectingWeight ch - retargetingBias ch) * 0.2"
  by (cases ch) simp_all

lemma noiseFactor_bounds: "0 < noiseFactor nl \<and> noiseFactor nl < 1"
  by (cases nl) (simp_all add: noiseFactor_def)

lemma effectiveROAS_pos: "0 < effectiveROAS inp ch"
  unfolding effectiveROAS_def
  by (intro mult_pos_pos baseEfficiency_pos windowMultiplier_pos saturationPenalty_pos
        funnelFactor_pos)

lemma revenue_nonneg: "0 \<le> spend inp ch \<Longrightarrow> 0 \<le> spend inp ch * effectiveROAS inp ch"
  using effectiveROAS_pos [of inp ch] by simp

lemma roas_nonneg:
  assumes "0 \<le> spend inp ch"
  shows "0 \<le> roas (channelOutput inp ch)"
proof -
  have "roas (channelOutput inp ch) =
          spend inp ch * effectiveROAS inp ch / max (spend inp ch) 1 *
          max 0.05 (min 0.7 (modelWeights (model inp) ch +
            (retargetingBias ch - prospectingWeight ch) * noiseFactor (noise inp) *
              (if model inp = last_click then 1.2 else 0.8)))"
    by (simp add: channelOutput_def Let_def effectiveROAS_def)
  also have "0 \<le> \<dots>"
    by (intro mult_nonneg_nonneg divide_nonneg_nonneg revenue_nonneg assms) simp_all
  finally show ?thesis .
qed

lemma cac_nonneg:
  assumes "0 \<le> spend inp ch"
  shows "0 \<le> cac (channelOutput inp ch)"
proof -
  have "cac (channelOutput inp ch) =
          spend inp ch / max (spend inp ch * effectiveROAS inp ch / 500) 1"
    by (simp add: channelOutput_def Let_def effectiveROAS_def)
  also have "0 \<le> \<dots>"
    by (intro divide_nonneg_nonneg assms) simp
  finally show ?thesis .
qed

lemma attributedConversions_nonneg:
  assumes "0 \<le> spend inp ch"
  shows "0 \<le> attributedConversions (channelOutput inp ch)"
proof -
  have "attributedConversions (channelOutput inp ch) =
          spend inp ch * effectiveROAS inp ch / 500 *
          max 0.05 (min 0.7 (modelWeights (model inp) ch +
            (retargetingBias ch - prospectingWeight ch) * noiseFactor (noise inp) *
              (if model inp = last_click then 1.2 else 0.8)))"
    by (simp add: channelOutput_def Let_def effectiveROAS_def)
  also have "0 \<le> \<dots>"
    by (intro mult_nonneg_nonneg divide_nonneg_nonneg revenue_nonneg assms) simp_all
  finally show ?thesis .
qed

lemma incrementalShare_pos:
  "0 < prospectingWeight ch * 0.6 + (1 - retargetingBias ch) * 0.2 +
         (if m = bayesian_mmm then 0.2 else 0.1)"
  by (cases ch) simp_all

lemma noiseDiscount_pos: "0 < 1 - noiseFactor nl * 0.4"
  by (cases nl) (simp_all add: noiseFactor_def)

lemma incrementalConversions_nonneg:
  assumes "0 \<le> spend inp ch"
  shows "0 \<le> incrementalConversions (channelOutput inp ch)"
proof -
  have "incrementalConversions (channelOutput inp ch) =
          spend inp ch * effectiveROAS inp ch *
          (prospectingWeight ch * 0.6 + (1 - retargetingBias ch) * 0.2 +
             (if model inp = bayesian_mmm then 0.2 else 0.1)) *
          (1 - noiseFactor (noise inp) * 0.4) / 500"
    by (simp add: channelOutput_def Let_def effectiveROAS_def)
  also have "0 \<le> \<dots>"
    by (intro mult_nonneg_nonneg divide_nonneg_nonneg revenue_nonneg assms
          less_imp_le [OF incrementalShare_pos] less_imp_le [OF noiseDiscount_pos]) simp
  finally show ?thesis .
qed

text \<open>
  C8. For every input whose spends are all non-negative, \<open>simulateAttribution\<close> returns
  exactly one output per channel, in the order of \<open>CHANNELS\<close>, and every output has
  non-negative \<open>roas\<close>, \<open>cac\<close>, \<open>attributedConversions\<close> and \<open>incrementalConversions\<close>.
\<close>

theorem simulateAttribution_outputs:
  assumes "\<forall>ch. 0 \<le> spend inp ch"
  shows "map channel (simulateAttribution inp) = CHANNELS \<and>
         length (simulateAttribution inp) = 3 \<and>
         (\<forall>out \<in> set (simulateAttribution inp).
            0 \<le> roas out \<and> 0 \<le> cac out \<and>
            0 \<le> attributedConversions out \<and> 0 \<le> incrementalConversions out)"
proof (intro conjI ballI)
  show "map channel (simulateAttribution inp) = CHANNELS"
    by (simp add: simulateAttribution_def comp_def channel_channelOutput)
  show "length (simulateAttribution inp) = 3"
    by (simp add: simulateAttribution_def CHANNELS_def)
next
  fix out
  assume "out \<in> set (simulateAttribution inp)"
  then obtain ch where out: "out = channelOutput inp ch"
    by (auto simp: simulateAttribution_def)
  have sp: "0 \<le> spend inp ch"
    using assms by simp
  show "0 \<le> roas out" "0 \<le> cac out" "0 \<le> attributedConversions out"
       "0 \<le> incrementalConversions out"
    unfolding out
    by (rule roas_nonneg cac_nonneg attributedConversions_nonneg
          incrementalConversions_nonneg, rule sp)+
qed

lemma defaultSpend_nonneg: "\<forall>ch. 0 \<le> spend defaultInput ch"
  by (simp add: defaultInput_def defaultSpend_def split: Channel.split)

theorem simulateAttribution_outputs_witness:
  "(\<forall>ch. 0 \<le> spend defaultInput ch) \<and>
   map channel (simulateAttribution defaultInput) = [Meta, GoogleSearch, LinkedIn] \<and>
   0 \<le> roas (hd (simulateAttribution defaultInput))"
proof -
  have mem: "hd (simulateAttribution defaultInput) \<in> set (simulateAttribution defaultInput)"
    by (simp add: simulateAttribution_nonempty)
  show ?thesis
    using simulateAttribution_outputs [OF defaultSpend_nonneg] mem defaultSpend_nonneg
    by (simp add: CHANNELS_def)
qed

text \<open>
  C3. For every input and every output row of \<open>simulateAttribution\<close>, the certainty is High
  exactly when the model is bayesian_mmm, the window is 30 and the noise is low; otherwise it
  is Low exactly when the noise is high or the window is 7; in every remaining combination it
  is Medium.
\<close>

theorem certainty_rule:
  "\<forall>out \<in> set (simulateAttribution inp).
     (certainty out = High \<longleftrightarrow>
        model inp = bayesian_mmm \<and> window inp = W30 \<and> noise inp = low) \<and>
     (certainty out = Low \<longleftrightarrow>
        \<not> (model inp = bayesian_mmm \<and> window inp = W30 \<and> noise inp = low) \<and>
        (noise inp = high \<or> window inp = W7)) \<and>
     (certainty out = Medium \<longleftrightarrow>
        \<not> (model inp = bayesian_mmm \<and> window inp = W30 \<and> noise inp = low) \<and>
        \<not> (noise inp = high \<or> window inp = W7))"
  by (auto simp: simulateAttribution_def certainty_channelOutput)

theorem certainty_rule_witness:
  "hd (simulateAttribution defaultInput) \<in> set (simulateAttribution defaultInput) \<and>
   certainty (hd (simulateAttribution defaultInput)) = Medium"
proof -
  have mem: "hd (simulateAttribution defaultInput) \<in> set (simulateAttribution defaultInput)"
    by (simp add: simulateAttribution_nonempty)
  have "model defaultInput = bayesian_mmm" "window defaultInput = W30"
       "noise defaultInput = medium"
    by (simp_all add: defaultInput_def)
  with certainty_rule [of defaultInput] mem show ?thesis by simp
qed

text \<open>
  C10. The certainty depends on the model, the window and the noise only: two runs that agree
  on these three fields, whatever their spends and saturation, give the same certainty to every
  output row; in particular the three rows of one run carry the same certainty.
\<close>

theorem certainty_uniform:
  assumes "model inp = model inp'" "window inp = window inp'" "noise inp = noise inp'"
  shows "\<forall>out \<in> set (simulateAttribution inp). \<forall>out' \<in> set (simulateAttribution inp').
           certainty out = certainty out'"
  using assms by (auto simp: simulateAttribution_def certainty_channelOutput)

theorem certainty_uniform_witness:
  "model defaultInput = model otherInput \<and> window defaultInput = window otherInput \<and>
   noise defaultInput = noise otherInput \<and>
   certainty (hd (simulateAttribution defaultInput)) =
     certainty (last (simulateAttribution otherInput)) \<and>
   map certainty (simulateAttribution defaultInput) = [Medium, Medium, Medium]"
proof -
  have eqs: "model defaultInput = model otherInput" "window defaultInput = window otherInput"
       "noise defaultInput = noise otherInput"
    by (simp_all add: defaultInput_def otherInput_def)
  have m1: "hd (simulateAttribution defaultInput) \<in> set (simulateAttribution defaultInput)"
    by (simp add: simulateAttribution_nonempty)
  have m2: "last (simulateAttribution otherInput) \<in> set (simulateAttribution otherInput)"
    by (simp add: simulateAttribution_nonempty)
  have "map certainty (simulateAttribution defaultInput) = [Medium, Medium, Medium]"
    by (simp add: simulateAttribution_def CHANNELS_def certainty_channelOutput defaultInput_def)
  with certainty_uniform [OF eqs] eqs m1 m2 show ?thesis by blast
qed

subsection \<open>\<open>deriveBudgetPlan\<close>\<close>

lemma sumChannels_eq: "sumChannels f = f Meta + f GoogleSearch + f LinkedIn"
  by (simp add: sumChannels_def CHANNELS_def)

lemma totalUnderWeight_eq: "totalUnderWeight = 1"
  by (simp add: totalUnderWeight_def sumChannels_eq)

lemma fst_flooredShares: "fst (flooredShares sp m) ch = floored sp m ch"
  by (cases ch)
    (simp_all add: flooredShares_def CHANNELS_def giveBackStep_def Let_def floored_def
       giveBack_def)

lemma snd_flooredShares: "snd (flooredShares sp m) = poolOf sp m"
  by (simp add: flooredShares_def CHANNELS_def giveBackStep_def Let_def giveBack_def poolOf_def)

lemma afterShares_eq:
  "afterShares sp m ch = floored sp m ch + underCreditedBase ch * poolOf sp m"
  by (cases ch)
    (simp_all add: afterShares_def fst_flooredShares snd_flooredShares CHANNELS_def allocateStep_def Let_def
       totalUnderWeight_eq)

lemma budgetTotal_pos:
  assumes "\<forall>ch. 0 \<le> sp ch"
  shows "0 < budgetTotal sp"
proof -
  have "0 \<le> sp Meta" "0 \<le> sp GoogleSearch" "0 \<le> sp LinkedIn"
    using assms by simp_all
  then show ?thesis
    by (simp add: budgetTotal_def or_else_def sumChannels_eq)
qed

lemma giveBack_nonneg: "0 \<le> giveBack sp m ch"
  by (simp add: giveBack_def reallocationIntensity_def)

lemma poolOf_nonneg: "0 \<le> poolOf sp m"
  using giveBack_nonneg [of sp m] by (simp add: poolOf_def)

lemma floored_ge: "0.08 \<le> floored sp m ch"
  by (simp add: floored_def)

lemma underCreditedBase_pos: "0 < underCreditedBase ch"
  by (cases ch) simp_all

lemma afterShares_ge: "0.08 \<le> afterShares sp m ch"
proof -
  have "0 \<le> underCreditedBase ch * poolOf sp m"
    using underCreditedBase_pos [of ch] poolOf_nonneg [of sp m] by simp
  with floored_ge [of sp m ch] show ?thesis
    by (simp add: afterShares_eq)
qed

lemma sum_afterShares_ge: "0.24 \<le> sumChannels (afterShares sp m)"
  using afterShares_ge [of sp m Meta] afterShares_ge [of sp m GoogleSearch]
    afterShares_ge [of sp m LinkedIn]
  by (simp add: sumChannels_eq)

lemma normalizeSum_eq: "normalizeSum sp m = sumChannels (afterShares sp m)"
  using sum_afterShares_ge [of sp m] by (simp add: normalizeSum_def or_else_def)

lemma normalizeSum_pos: "0 < normalizeSum sp m"
  using sum_afterShares_ge [of sp m] by (simp add: normalizeSum_eq)

lemma sumAfter_eq:
  "sumAfter (deriveBudgetPlan sp m) =
     sumChannels (afterShares sp m) / normalizeSum sp m * budgetTotal sp"
  by (simp add: sumAfter_def deriveBudgetPlan_def CHANNELS_def sumChannels_eq
        add_divide_distrib distrib_right)

lemma sumBefore_eq:
  "sumBefore (deriveBudgetPlan sp m) =
     sumChannels (beforeShares sp) / normalizeSum sp m * budgetTotal sp"
  by (simp add: sumBefore_def deriveBudgetPlan_def CHANNELS_def sumChannels_eq
        add_divide_distrib distrib_right)

lemma sumAfter_total: "sumAfter (deriveBudgetPlan sp m) = budgetTotal sp"
  using normalizeSum_pos [of sp m] by (simp add: sumAfter_eq normalizeSum_eq)

lemma sum_beforeShares:
  "sumChannels (beforeShares sp) = sumChannels sp / budgetTotal sp"
  by (simp add: sumChannels_eq beforeShares_def add_divide_distrib)


lemma sum_afterShares_eq:
  "sumChannels (afterShares sp m) = sumChannels (floored sp m) + poolOf sp m"
proof -
  have "0.35 * poolOf sp m + 0.2 * poolOf sp m + 0.45 * poolOf sp m = poolOf sp m"
    by simp
  then show ?thesis
    by (simp add: sumChannels_eq afterShares_eq)
qed

lemma normalizeSum_floored:
  "normalizeSum sp m =
     floored sp m Meta + floored sp m GoogleSearch + floored sp m LinkedIn + poolOf sp m"
  unfolding normalizeSum_eq sum_afterShares_eq by (simp add: sumChannels_eq)

lemma budgetTotal_nonzero: "budgetTotal sp \<noteq> 0"
  by (simp add: budgetTotal_def or_else_def)

lemma overCreditedBase_ge: "0.15 \<le> overCreditedBase m ch"
  by (cases ch) simp_all

lemma reallocationIntensity_bounds:
  "0 < reallocationIntensity m \<and> reallocationIntensity m < 1"
  by (simp add: reallocationIntensity_def)

lemma floored_unfloored:
  assumes "0.08 \<le> beforeShares sp ch"
  shows "floored sp m ch = beforeShares sp ch - giveBack sp m ch"
proof -
  let ?b = "beforeShares sp ch" and ?over = "overCreditedBase m ch"
  let ?r = "reallocationIntensity m"
  have "0.08 \<le> ?b - max 0 (?b - ?over) * ?r"
  proof (cases "?b \<le> ?over")
    case True
    then show ?thesis using assms by (simp add: max_def)
  next
    case False
    then have pos: "0 \<le> ?b - ?over" by simp
    have "(?b - ?over) * ?r \<le> (?b - ?over) * 1"
      using reallocationIntensity_bounds [of m] pos
      by (intro mult_left_mono) simp_all
    then have "?over \<le> ?b - (?b - ?over) * ?r" by simp
    with overCreditedBase_ge [of m ch] False show ?thesis
      by (simp add: max_def)
  qed
  then show ?thesis
    by (simp add: floored_def giveBack_def)
qed

lemma budgetTotal_is_sum:
  assumes "\<forall>ch. 0 \<le> sp ch" "\<forall>ch. 0.08 * budgetTotal sp \<le> sp ch"
  shows "budgetTotal sp = sumChannels sp"
proof (cases "sumChannels sp = 0")
  case True
  then have "budgetTotal sp = 1" by (simp add: budgetTotal_def or_else_def)
  with assms(2) have "0.08 \<le> sp Meta" "0.08 \<le> sp GoogleSearch" "0.08 \<le> sp LinkedIn"
    by simp_all
  with True show ?thesis by (simp add: sumChannels_eq)
next
  case False
  then show ?thesis by (simp add: budgetTotal_def or_else_def)
qed

lemma normalizeSum_one:
  assumes "\<forall>ch. 0 \<le> sp ch" "\<forall>ch. 0.08 * budgetTotal sp \<le> sp ch"
  shows "normalizeSum sp m = 1"
proof -
  have T: "0 < budgetTotal sp" by (rule budgetTotal_pos [OF assms(1)])
  have b: "0.08 \<le> beforeShares sp ch" for ch
    using assms(2) T by (simp add: beforeShares_def pos_le_divide_eq)
  have "sumChannels (beforeShares sp) = 1"
    using T budgetTotal_is_sum [OF assms] by (simp add: sum_beforeShares)
  then show ?thesis
    by (simp add: normalizeSum_floored sumChannels_eq floored_unfloored [OF b] poolOf_def)
qed

text \<open>
  C1 (amended). For every non-negative spend mapping and every model, the \<open>after\<close> values of
  the returned rows sum to \<open>total\<close> (the sum of the spends, or 1 when that sum is 0); the
  \<open>before\<close> values sum to \<open>total\<close> as well whenever every channel's spend is at least 8% of
  \<open>total\<close>. Both are equalities of exact arithmetic.
\<close>

theorem budget_totals:
  assumes "\<forall>ch. 0 \<le> sp ch"
  shows "sumAfter (deriveBudgetPlan sp m) = budgetTotal sp \<and>
         ((\<forall>ch. 0.08 * budgetTotal sp \<le> sp ch) \<longrightarrow>
            sumBefore (deriveBudgetPlan sp m) = budgetTotal sp)"
proof (intro conjI impI)
  show "sumAfter (deriveBudgetPlan sp m) = budgetTotal sp"
    by (rule sumAfter_total)
next
  assume big: "\<forall>ch. 0.08 * budgetTotal sp \<le> sp ch"
  have T: "0 < budgetTotal sp" by (rule budgetTotal_pos [OF assms])
  have "sumChannels (beforeShares sp) = 1"
    using T budgetTotal_is_sum [OF assms big] by (simp add: sum_beforeShares)
  then show "sumBefore (deriveBudgetPlan sp m) = budgetTotal sp"
    by (simp add: sumBefore_eq normalizeSum_one [OF assms big])
qed

lemma defaultSpend_props:
  "\<forall>ch. 0 \<le> defaultSpend ch" "\<forall>ch. 0.08 * budgetTotal defaultSpend \<le> defaultSpend ch"
  by (simp_all add: defaultSpend_def budgetTotal_def or_else_def sumChannels_eq
        split: Channel.split)

theorem budget_totals_witness:
  "(\<forall>ch. 0 \<le> defaultSpend ch) \<and> (\<forall>ch. 0.08 * budgetTotal defaultSpend \<le> defaultSpend ch) \<and>
   sumAfter (deriveBudgetPlan defaultSpend bayesian_mmm) = 270000 \<and>
   sumBefore (deriveBudgetPlan defaultSpend bayesian_mmm) = 270000"
proof -
  have "budgetTotal defaultSpend = 270000"
    by (simp add: defaultSpend_def budgetTotal_def or_else_def sumChannels_eq)
  with budget_totals [OF defaultSpend_props(1), of bayesian_mmm] defaultSpend_props
  show ?thesis by simp
qed

lemma plan_zero:
  "map before (deriveBudgetPlan zeroSpend m) = [0, 0, 0]"
  "sumBefore (deriveBudgetPlan zeroSpend m) = 0"
  "budgetTotal zeroSpend = 1"
  by (simp_all add: deriveBudgetPlan_def sumBefore_def CHANNELS_def beforeShares_def
        zeroSpend_def budgetTotal_def or_else_def sumChannels_eq)

text \<open>
  The claim as stated fails: with every spend 0 the \<open>before\<close> values sum to 0 while \<open>total\<close>
  is 1, and with the whole spend on Meta the \<open>before\<close> values sum to 2500/29 while the
  \<open>after\<close> values sum to 100.
\<close>

theorem budget_totals_counterexample:
  "\<not> approxEq (sumBefore (deriveBudgetPlan zeroSpend last_click)) (budgetTotal zeroSpend) \<and>
   \<not> approxEq (sumAfter (deriveBudgetPlan metaOnlySpend last_click))
              (sumBefore (deriveBudgetPlan metaOnlySpend last_click))"
proof
  show "\<not> approxEq (sumBefore (deriveBudgetPlan zeroSpend last_click)) (budgetTotal zeroSpend)"
    by (simp add: plan_zero approxEq_def)
next
  have T: "budgetTotal metaOnlySpend = 100"
    by (simp add: budgetTotal_def or_else_def sumChannels_eq metaOnlySpend_def)
  have b: "beforeShares metaOnlySpend Meta = 1" "beforeShares metaOnlySpend GoogleSearch = 0"
          "beforeShares metaOnlySpend LinkedIn = 0"
    by (simp_all add: beforeShares_def T metaOnlySpend_def)
  have g: "giveBack metaOnlySpend last_click Meta = 0.168" "giveBack metaOnlySpend last_click GoogleSearch = 0"
          "giveBack metaOnlySpend last_click LinkedIn = 0"
    by (simp_all add: giveBack_def b reallocationIntensity_def)
  have N: "normalizeSum metaOnlySpend last_click = 1.16"
    by (simp add: normalizeSum_floored floored_def poolOf_def g b)
  have "sumBefore (deriveBudgetPlan metaOnlySpend last_click) = 2500 / 29"
    by (simp add: sumBefore_eq N T sumChannels_eq b)
  then show "\<not> approxEq (sumAfter (deriveBudgetPlan metaOnlySpend last_click))
              (sumBefore (deriveBudgetPlan metaOnlySpend last_click))"
    by (simp add: sumAfter_total T approxEq_def)
qed


text \<open>
  C2. With the spends 105000, 140000 and 15000 under last_click, the after-share of LinkedIn
  (\<open>after\<close> over the sum of all \<open>after\<close>) is 10463/132900, below the floor of 0.08 the claim
  states: the share is lifted to 0.08 first and divided by \<open>normalize\<close>, here above 1,
  afterwards.
\<close>

theorem after_share_below_floor:
  "after (deriveBudgetPlan sliderSpend last_click ! 2) /
     sumAfter (deriveBudgetPlan sliderSpend last_click) = 10463 / 132900 \<and>
   after (deriveBudgetPlan sliderSpend last_click ! 2) /
     sumAfter (deriveBudgetPlan sliderSpend last_click) < 0.08"
proof -
  have T: "budgetTotal sliderSpend = 260000"
    by (simp add: budgetTotal_def or_else_def sumChannels_eq sliderSpend_def)
  have b: "beforeShares sliderSpend Meta = 21 / 52" "beforeShares sliderSpend GoogleSearch = 7 / 13"
          "beforeShares sliderSpend LinkedIn = 3 / 52"
    by (simp_all add: beforeShares_def T sliderSpend_def)
  have g: "giveBack sliderSpend last_click Meta = 7 / 6500"
          "giveBack sliderSpend last_click GoogleSearch = 0"
          "giveBack sliderSpend last_click LinkedIn = 0"
    by (simp_all add: giveBack_def b reallocationIntensity_def)
  have N: "normalizeSum sliderSpend last_click = 1329 / 1300"
    by (simp add: normalizeSum_floored floored_def poolOf_def g b)
  have a: "afterShares sliderSpend last_click LinkedIn = 10463 / 130000"
    by (simp add: afterShares_eq floored_def poolOf_def g b)
  have "after (deriveBudgetPlan sliderSpend last_click ! 2) = 10463 / 130000 / (1329 / 1300) * 260000"
    by (simp add: T deriveBudgetPlan_def CHANNELS_def a N)
  then have eq: "after (deriveBudgetPlan sliderSpend last_click ! 2) /
      sumAfter (deriveBudgetPlan sliderSpend last_click) = 10463 / 132900"
    unfolding sumAfter_total T by simp
  show ?thesis unfolding eq by simp
qed

text \<open>
  C9. When every channel's spend is 0, \<open>deriveBudgetPlan\<close> works with \<open>total = 1\<close>, every
  \<open>before\<close> value is 0, and none of the denominators it divides by (\<open>total\<close>,
  \<open>totalUnderWeight\<close>, \<open>normalize\<close>) is zero, whatever the model.
\<close>

theorem zero_spend_plan:
  "budgetTotal zeroSpend = 1 \<and>
   map before (deriveBudgetPlan zeroSpend m) = [0, 0, 0] \<and>
   0 \<notin> set (budgetDenominators zeroSpend m)"
proof -
  have "normalizeSum zeroSpend m \<noteq> 0"
    using normalizeSum_pos [of zeroSpend m] by simp
  then show ?thesis
    by (simp add: plan_zero budgetDenominators_def totalUnderWeight_eq)
qed

subsection \<open>The cohort table\<close>

lemma cumulative_foldl:
  "map cumulative (fst (foldl (cohortStep len nadj) (rows, prev) ics)) =
     map cumulative rows @ map (adjustedCum len nadj) ics"
proof (induction ics arbitrary: rows prev)
  case Nil
  show ?case by simp
next
  case (Cons ic ics)
  have "cohortStep len nadj (rows, prev) ic =
          (fst (cohortStep len nadj (rows, prev) ic), snd (cohortStep len nadj (rows, prev) ic))"
    by simp
  moreover have "map cumulative (fst (cohortStep len nadj (rows, prev) ic)) =
      map cumulative rows @ [adjustedCum len nadj ic]"
    by (simp add: cohortStep_def Let_def adjustedCum_def)
  ultimately show ?case
    using Cons.IH [of "fst (cohortStep len nadj (rows, prev) ic)"
        "snd (cohortStep len nadj (rows, prev) ic)"]
    by (metis append.assoc append_Cons append_Nil foldl_Cons list.simps(9))
qed

lemma cumulative_cohortTable:
  "map cumulative (cohortTable w nl) =
     map (adjustedCum (length (baseCurve w)) (noiseAdjust nl)) (enumerate 0 (baseCurve w))"
  by (simp add: cohortTable_def Let_def cumulative_foldl)

lemma adjustedCum_range: "0 \<le> adjustedCum len nadj ic \<and> adjustedCum len nadj ic \<le> 1"
  by (simp add: adjustedCum_def)

lemma cohortTable_nonempty: "cohortTable w nl \<noteq> []"
proof -
  have "map cumulative (cohortTable w nl) \<noteq> []"
    unfolding cumulative_cohortTable by (simp add: baseCurve_def)
  then show ?thesis by auto
qed

lemma cohort_sorted: "sorted (map cumulative (cohortTable w nl))"
  unfolding cumulative_cohortTable
  by (cases w; cases nl)
    (simp_all add: baseCurve_def noiseAdjust_def adjustedCum_def enumerate_eq_zip upt_rec)

lemma cohort_last: "cumulative (last (cohortTable w nl)) = 1"
proof -
  have "cumulative (last (cohortTable w nl)) = last (map cumulative (cohortTable w nl))"
    by (simp add: last_map cohortTable_nonempty)
  also have "\<dots> = 1"
    unfolding cumulative_cohortTable
    by (cases w; cases nl)
      (simp_all add: baseCurve_def noiseAdjust_def adjustedCum_def enumerate_eq_zip upt_rec)
  finally show ?thesis .
qed

text \<open>
  C7. For every conversion window and every noise level, the cumulative values of the cohort
  table are non-decreasing, each lies in [0,1], and the last one differs from 1 by at most
  \<open>noiseAdjust * 0.1\<close> (it is in fact 1: the jitter of the last point is positive and the
  clamp cuts it off).
\<close>

theorem cohort_cumulative:
  "sorted (map cumulative (cohortTable w nl)) \<and>
   (\<forall>r \<in> set (cohortTable w nl). 0 \<le> cumulative r \<and> cumulative r \<le> 1) \<and>
   \<bar>cumulative (last (cohortTable w nl)) - 1\<bar> \<le> noiseAdjust nl * 0.1"
proof (intro conjI ballI)
  show "sorted (map cumulative (cohortTable w nl))" by (rule cohort_sorted)
  show "\<bar>cumulative (last (cohortTable w nl)) - 1\<bar> \<le> noiseAdjust nl * 0.1"
    by (simp add: cohort_last noiseAdjust_def)
next
  fix r assume "r \<in> set (cohortTable w nl)"
  then have "cumulative r \<in> set (map cumulative (cohortTable w nl))" by simp
  then obtain ic where "cumulative r = adjustedCum (length (baseCurve w)) (noiseAdjust nl) ic"
    unfolding cumulative_cohortTable by auto
  then show "0 \<le> cumulative r" "cumulative r \<le> 1"
    using adjustedCum_range by simp_all
qed

theorem cohort_cumulative_witness:
  "hd (cohortTable W7 high) \<in> set (cohortTable W7 high) \<and>
   0 \<le> cumulative (hd (cohortTable W7 high)) \<and>
   cumulative (hd (cohortTable W7 high)) \<le> 1 \<and>
   map cumulative (cohortTable W7 high) = [0.538, 0.794, 0.95, 1]"
proof -
  have mem: "hd (cohortTable W7 high) \<in> set (cohortTable W7 high)"
    by (simp add: cohortTable_nonempty)
  have "map cumulative (cohortTable W7 high) = [0.538, 0.794, 0.95, 1]"
    unfolding cumulative_cohortTable
    by (simp add: baseCurve_def noiseAdjust_def adjustedCum_def enumerate_eq_zip upt_rec)
  with cohort_cumulative [of W7 high] mem show ?thesis by blast
qed

subsection \<open>The weekly series generator\<close>














subsection \<open>The per-channel series projector\<close>


lemma length_perChannelWeeklySeries: "length (perChannelWeeklySeries ws outputs) = length ws"
  by (simp add: perChannelWeeklySeries_def Let_def)








end
